theory Spec2Isabelle
  imports Complex_Main
begin

section \<open>Data model\<close>

text \<open>
  The component keeps three pieces of state: the life stage, the age and the pet's
  attributes. A JavaScript \<open>number\<close> is modelled as a real, and \<open>NaN\<close> and the infinities
  are outside this development. The functions of this section compute in exact
  arithmetic; the section on binary64 arithmetic adds the rounding of IEEE doubles to
  the decay, for the one property that depends on it.
\<close>

datatype LifeStage = Egg | Hatching | Alive | Dead

record PetState =
  hunger :: real
  happiness :: real
  energy :: real
  cleanliness :: real
  lastUpdated :: real

record Game =
  stage :: LifeStage
  age :: real
  pet :: PetState

definition clamp :: "real \<Rightarrow> real" where
  "clamp v = max 0 (min 100 v)"

definition TICK_MS :: real where
  "TICK_MS = 5000"

definition MAX_AGE :: real where
  "MAX_AGE = 24"

definition HATCH_MS :: real where
  "HATCH_MS = 1200"

definition freshPet :: "real \<Rightarrow> PetState" where
  "freshPet now =
     \<lparr>hunger = 70, happiness = 60, energy = 80, cleanliness = 90, lastUpdated = now\<rparr>"

definition hungerDecay :: real where
  "hungerDecay = - 0.25"

definition happinessDecay :: real where
  "happinessDecay = - 0.30"

definition energyDecay :: real where
  "energyDecay = - 0.18"

definition cleanlinessDecay :: real where
  "cleanlinessDecay = - 0.22"

definition applyDecay :: "PetState \<Rightarrow> real \<Rightarrow> PetState" where
  "applyDecay p seconds =
     \<lparr>hunger = clamp (hunger p + hungerDecay * seconds),
      happiness = clamp (happiness p + happinessDecay * seconds),
      energy = clamp (energy p + energyDecay * seconds),
      cleanliness = clamp (cleanliness p + cleanlinessDecay * seconds),
      lastUpdated = lastUpdated p\<rparr>"

definition in_range :: "PetState \<Rightarrow> bool" where
  "in_range p \<longleftrightarrow>
     0 \<le> hunger p \<and> hunger p \<le> 100 \<and> 0 \<le> happiness p \<and> happiness p \<le> 100 \<and>
     0 \<le> energy p \<and> energy p \<le> 100 \<and> 0 \<le> cleanliness p \<and> cleanliness p \<le> 100"


section \<open>Stored values\<close>

text \<open>
  What \<open>JSON.parse\<close> can return. An object is the list of its members; \<open>field\<close> reads a
  property, with \<open>None\<close> for JavaScript's \<open>undefined\<close>. Only objects have the properties
  the component reads (\<open>version\<close>, \<open>stage\<close>, \<open>age\<close>, \<open>pet\<close> and the five of a pet).
\<close>

datatype json =
  JNull
  | JBool bool
  | JNum real
  | JStr string
  | JArr "json list"
  | JObj "(string \<times> json) list"

fun field :: "string \<Rightarrow> json \<Rightarrow> json option" where
  "field k (JObj kvs) = map_of kvs k"
| "field k v = None"

fun truthy :: "json \<Rightarrow> bool" where
  "truthy JNull = False"
| "truthy (JBool b) = b"
| "truthy (JNum x) = (x \<noteq> 0)"
| "truthy (JStr s) = (s \<noteq> [])"
| "truthy (JArr xs) = True"
| "truthy (JObj kvs) = True"

text \<open>
  The result of \<open>localStorage.getItem\<close>: it throws when storage is unavailable, returns
  \<open>null\<close> for an absent key, and the stored string otherwise.
\<close>

datatype getItem_result = ReadThrows | ReadNull | ReadString string

text \<open>
  The component asserts the type \<open>SavedGame\<close> on the parsed value and checks only part
  of it. Where a stored field it computes with has another type than the asserted one
  (a stage that is not one of the four strings, an attribute or a truthy timestamp that
  is not a number), the component goes on with untyped values; the model stops there
  with \<open>Untyped\<close>.
\<close>

datatype load_result = Loaded Game | Untyped

text \<open>\<open>saved.stage ?? "egg"\<close>, read at the type \<open>LifeStage\<close>.\<close>

fun stageOrEgg :: "json option \<Rightarrow> LifeStage option" where
  "stageOrEgg None = Some Egg"
| "stageOrEgg (Some JNull) = Some Egg"
| "stageOrEgg (Some (JStr s)) =
     (if s = ''egg'' then Some Egg
      else if s = ''hatching'' then Some Hatching
      else if s = ''alive'' then Some Alive
      else if s = ''dead'' then Some Dead
      else None)"
| "stageOrEgg (Some v) = None"

text \<open>\<open>typeof saved.age === "number" ? saved.age : 0\<close>.\<close>

fun ageOrZero :: "json option \<Rightarrow> real" where
  "ageOrZero (Some (JNum a)) = a"
| "ageOrZero v = 0"

text \<open>\<open>saved.pet.lastUpdated || now\<close>, read at the type \<open>number\<close>.\<close>

fun lastUpdatedOr :: "real \<Rightarrow> json option \<Rightarrow> real option" where
  "lastUpdatedOr now None = Some now"
| "lastUpdatedOr now (Some (JNum t)) = Some (if t \<noteq> 0 then t else now)"
| "lastUpdatedOr now (Some v) = (if truthy v then None else Some now)"

fun numberOf :: "json option \<Rightarrow> real option" where
  "numberOf (Some (JNum x)) = Some x"
| "numberOf v = None"

text \<open>
  The four attributes of \<open>saved.pet\<close>, read at the type \<open>number\<close>. The timestamp of the
  record built here is overwritten with \<open>now\<close> on both paths of \<open>initialGame\<close>.
\<close>

definition savedPet :: "json \<Rightarrow> real \<Rightarrow> PetState option" where
  "savedPet p t =
     (case (numberOf (field ''hunger'' p), numberOf (field ''happiness'' p),
            numberOf (field ''energy'' p), numberOf (field ''cleanliness'' p)) of
        (Some h, Some ha, Some e, Some c) \<Rightarrow>
          Some \<lparr>hunger = h, happiness = ha, energy = e, cleanliness = c, lastUpdated = t\<rparr>
      | _ \<Rightarrow> None)"

definition freshGame :: "real \<Rightarrow> Game" where
  "freshGame now = \<lparr>stage = Egg, age = 0, pet = freshPet now\<rparr>"

text \<open>
  \<open>initialGame\<close>, with \<open>JSON.parse\<close> as the parameter \<open>parse\<close> (\<open>None\<close> when it throws),
  the clock reading \<open>now\<close> and the outcome of \<open>getItem\<close>. Every exception inside the
  \<open>try\<close> block leaves the defaults in place.
\<close>

definition restore :: "real \<Rightarrow> json \<Rightarrow> json \<Rightarrow> load_result" where
  "restore now saved p =
     (case stageOrEgg (field ''stage'' saved) of
        None \<Rightarrow> Untyped
      | Some st \<Rightarrow>
          (case lastUpdatedOr now (field ''lastUpdated'' p) of
             None \<Rightarrow> Untyped
           | Some t \<Rightarrow>
               (case savedPet p t of
                  None \<Rightarrow> Untyped
                | Some sp \<Rightarrow>
                    (let a = ageOrZero (field ''age'' saved);
                         elapsedSec = of_int \<lfloor>(now - t) / 1000\<rfloor>
                     in Loaded \<lparr>stage = st, age = a,
                          pet = (if st = Alive
                                 then (applyDecay sp elapsedSec)\<lparr>lastUpdated := now\<rparr>
                                 else sp\<lparr>lastUpdated := now\<rparr>)\<rparr>))))"

definition initialGame :: "(string \<Rightarrow> json option) \<Rightarrow> real \<Rightarrow> getItem_result \<Rightarrow> load_result" where
  "initialGame parse now r =
     (case r of
        ReadThrows \<Rightarrow> Loaded (freshGame now)
      | ReadNull \<Rightarrow> Loaded (freshGame now)
      | ReadString raw \<Rightarrow>
          (if raw = [] then Loaded (freshGame now)
           else
             (case parse raw of
                None \<Rightarrow> Loaded (freshGame now)
              | Some saved \<Rightarrow>
                  (if field ''version'' saved = Some (JNum 2) then
                     (case field ''pet'' saved of
                        None \<Rightarrow> Loaded (freshGame now)
                      | Some p \<Rightarrow>
                          (if truthy p then restore now saved p
                           else Loaded (freshGame now)))
                   else Loaded (freshGame now)))))"

text \<open>The snapshot the persistence effect writes: \<open>{ version: 2, stage, age, pet }\<close>.\<close>

fun stageName :: "LifeStage \<Rightarrow> string" where
  "stageName Egg = ''egg''"
| "stageName Hatching = ''hatching''"
| "stageName Alive = ''alive''"
| "stageName Dead = ''dead''"

definition payload :: "Game \<Rightarrow> json" where
  "payload g =
     JObj [(''version'', JNum 2), (''stage'', JStr (stageName (stage g))),
           (''age'', JNum (age g)),
           (''pet'', JObj [(''hunger'', JNum (hunger (pet g))),
                          (''happiness'', JNum (happiness (pet g))),
                          (''energy'', JNum (energy (pet g))),
                          (''cleanliness'', JNum (cleanliness (pet g))),
                          (''lastUpdated'', JNum (lastUpdated (pet g)))])]"


section \<open>Handlers, timers and effects\<close>

text \<open>
  Each handler runs to completion on the current state. The clock reading of a handler
  is its first argument.
\<close>

definition hatch :: "real \<Rightarrow> Game \<Rightarrow> Game" where
  "hatch now g =
     (if stage g \<noteq> Egg then g
      else g\<lparr>pet := freshPet now, age := 0, stage := Hatching\<rparr>)"

definition restart :: "real \<Rightarrow> Game \<Rightarrow> Game" where
  "restart now g = g\<lparr>stage := Egg, age := 0, pet := freshPet now\<rparr>"

text \<open>
  The updaters that the care actions pass to \<open>setPet\<close>: a copy of the pet with the
  listed fields replaced.
\<close>

definition feedPet :: "real \<Rightarrow> PetState \<Rightarrow> PetState" where
  "feedPet now p =
     p\<lparr>hunger := clamp (hunger p + 15),
       cleanliness := clamp (cleanliness p - 5),
       lastUpdated := now\<rparr>"

definition playPet :: "real \<Rightarrow> PetState \<Rightarrow> PetState" where
  "playPet now p =
     p\<lparr>happiness := clamp (happiness p + 18),
       energy := clamp (energy p - 10),
       cleanliness := clamp (cleanliness p - 6),
       hunger := clamp (hunger p - 6),
       lastUpdated := now\<rparr>"

definition napPet :: "real \<Rightarrow> PetState \<Rightarrow> PetState" where
  "napPet now p =
     p\<lparr>energy := clamp (energy p + 20),
       happiness := clamp (happiness p + 4),
       hunger := clamp (hunger p - 5),
       lastUpdated := now\<rparr>"

definition cleanPet :: "real \<Rightarrow> PetState \<Rightarrow> PetState" where
  "cleanPet now p =
     p\<lparr>cleanliness := clamp (cleanliness p + 22),
       happiness := clamp (happiness p + 3),
       lastUpdated := now\<rparr>"

definition feed :: "real \<Rightarrow> Game \<Rightarrow> Game" where
  "feed now g = (if stage g \<noteq> Alive then g else g\<lparr>pet := feedPet now (pet g)\<rparr>)"

definition play :: "real \<Rightarrow> Game \<Rightarrow> Game" where
  "play now g = (if stage g \<noteq> Alive then g else g\<lparr>pet := playPet now (pet g)\<rparr>)"

definition nap :: "real \<Rightarrow> Game \<Rightarrow> Game" where
  "nap now g = (if stage g \<noteq> Alive then g else g\<lparr>pet := napPet now (pet g)\<rparr>)"

definition clean :: "real \<Rightarrow> Game \<Rightarrow> Game" where
  "clean now g = (if stage g \<noteq> Alive then g else g\<lparr>pet := cleanPet now (pet g)\<rparr>)"

text \<open>The callback of the hatch timer, registered while the stage is hatching.\<close>

definition hatchTimeout :: "Game \<Rightarrow> Game" where
  "hatchTimeout g = g\<lparr>stage := Alive\<rparr>"

text \<open>The callback of the interval, registered while the stage is alive.\<close>

definition tick :: "real \<Rightarrow> Game \<Rightarrow> Game" where
  "tick now g =
     g\<lparr>age := age g + 1,
       pet := (applyDecay (pet g) (TICK_MS / 1000))\<lparr>lastUpdated := now\<rparr>\<rparr>"

text \<open>The death check, an effect that runs after a render in which stage or age changed.\<close>

definition deathCheck :: "Game \<Rightarrow> Game" where
  "deathCheck g =
     (if stage g \<noteq> Alive then g
      else if age g \<ge> MAX_AGE then g\<lparr>stage := Dead\<rparr>
      else g)"

text \<open>
  What can happen to a mounted component: a click on one of the buttons, a timer firing,
  or the death check running. A button exists only in the stage that renders it, and a
  timer only in the stage whose effect registers it (the cleanup clears it on leaving).
\<close>

datatype event =
  ClickHatch real
  | ClickRestart real
  | ClickFeed real
  | ClickPlay real
  | ClickNap real
  | ClickClean real
  | HatchTimer
  | Interval real
  | DeathEffect

fun enabled :: "event \<Rightarrow> Game \<Rightarrow> bool" where
  "enabled (ClickHatch now) g = (stage g = Egg)"
| "enabled (ClickRestart now) g = (stage g = Dead)"
| "enabled (ClickFeed now) g = (stage g = Alive)"
| "enabled (ClickPlay now) g = (stage g = Alive)"
| "enabled (ClickNap now) g = (stage g = Alive)"
| "enabled (ClickClean now) g = (stage g = Alive)"
| "enabled HatchTimer g = (stage g = Hatching)"
| "enabled (Interval now) g = (stage g = Alive)"
| "enabled DeathEffect g = True"

fun fire :: "event \<Rightarrow> Game \<Rightarrow> Game" where
  "fire (ClickHatch now) g = hatch now g"
| "fire (ClickRestart now) g = restart now g"
| "fire (ClickFeed now) g = feed now g"
| "fire (ClickPlay now) g = play now g"
| "fire (ClickNap now) g = nap now g"
| "fire (ClickClean now) g = clean now g"
| "fire HatchTimer g = hatchTimeout g"
| "fire (Interval now) g = tick now g"
| "fire DeathEffect g = deathCheck g"


section \<open>Sequences of writes and saturation\<close>




text \<open>
  A decay by \<open>seconds\<close> does not saturate when every attribute, before clamping,
  is still within the bounds: the clamp leaves all four values as computed.
\<close>

definition unsaturated :: "PetState \<Rightarrow> real \<Rightarrow> bool" where
  "unsaturated p seconds \<longleftrightarrow>
     0 \<le> hunger p + hungerDecay * seconds \<and> hunger p + hungerDecay * seconds \<le> 100 \<and>
     0 \<le> happiness p + happinessDecay * seconds \<and> happiness p + happinessDecay * seconds \<le> 100 \<and>
     0 \<le> energy p + energyDecay * seconds \<and> energy p + energyDecay * seconds \<le> 100 \<and>
     0 \<le> cleanliness p + cleanlinessDecay * seconds \<and> cleanliness p + cleanlinessDecay * seconds \<le> 100"


section \<open>Binary64 arithmetic\<close>

text \<open>
  A JavaScript number is an IEEE 754 binary64 value, and every arithmetic operation
  returns the double nearest to the exact result, ties going to the even significand.
  \<open>rne\<close> rounds a real to the nearest integer, ties to even. \<open>expo\<close> is the binary
  exponent of a non-zero real, held at -1022 for the subnormal range. \<open>rnd\<close> rounds a
  real to the nearest double: to a multiple of \<open>2 powi (expo x - 52)\<close>. Magnitudes from
  \<open>2 ^ 1024\<close> on, which IEEE 754 turns into an infinity, are outside the model.
\<close>

definition rne :: "real \<Rightarrow> int" where
  "rne x =
     (let f = \<lfloor>x\<rfloor>; d = x - of_int f
      in if d < 1 / 2 then f else if 1 / 2 < d then f + 1 else if even f then f else f + 1)"

definition expo :: "real \<Rightarrow> int" where
  "expo x = max \<lfloor>log 2 \<bar>x\<bar>\<rfloor> (- 1022)"

definition rnd :: "real \<Rightarrow> real" where
  "rnd x =
     (if x = 0 then 0
      else of_int (rne (x / 2 powi (expo x - 52))) * 2 powi (expo x - 52))"

text \<open>
  \<open>applyDecay\<close> as the program computes it: the literal of each rate is the double
  nearest to the decimal written in the source, and the product and the sum are each
  rounded.
\<close>

definition applyDecay64 :: "PetState \<Rightarrow> real \<Rightarrow> PetState" where
  "applyDecay64 p seconds =
     \<lparr>hunger = clamp (rnd (hunger p + rnd (rnd hungerDecay * seconds))),
      happiness = clamp (rnd (happiness p + rnd (rnd happinessDecay * seconds))),
      energy = clamp (rnd (energy p + rnd (rnd energyDecay * seconds))),
      cleanliness = clamp (rnd (cleanliness p + rnd (rnd cleanlinessDecay * seconds))),
      lastUpdated = lastUpdated p\<rparr>"

text \<open>
  A decay by \<open>seconds\<close> does not saturate in the program when the sum it computes for
  each attribute, before the clamp, is within the bounds.
\<close>

definition unsaturated64 :: "PetState \<Rightarrow> real \<Rightarrow> bool" where
  "unsaturated64 p seconds \<longleftrightarrow>
     0 \<le> rnd (hunger p + rnd (rnd hungerDecay * seconds)) \<and>
     rnd (hunger p + rnd (rnd hungerDecay * seconds)) \<le> 100 \<and>
     0 \<le> rnd (happiness p + rnd (rnd happinessDecay * seconds)) \<and>
     rnd (happiness p + rnd (rnd happinessDecay * seconds)) \<le> 100 \<and>
     0 \<le> rnd (energy p + rnd (rnd energyDecay * seconds)) \<and>
     rnd (energy p + rnd (rnd energyDecay * seconds)) \<le> 100 \<and>
     0 \<le> rnd (cleanliness p + rnd (rnd cleanlinessDecay * seconds)) \<and>
     rnd (cleanliness p + rnd (rnd cleanlinessDecay * seconds)) \<le> 100"


section \<open>The clamp\<close>


lemma clamp_id: "0 \<le> v \<Longrightarrow> v \<le> 100 \<Longrightarrow> clamp v = v"
  by (simp add: clamp_def)







section \<open>Care actions\<close>

text \<open>
  C7. In every stage other than alive, \<open>feed\<close>, \<open>play\<close>, \<open>nap\<close> and \<open>clean\<close> return the
  state as it was (attributes, age and stage), and so does \<open>hatch\<close> in every stage other
  than egg.
\<close>

theorem gated_handlers_noop:
  "(stage g \<noteq> Alive \<longrightarrow>
      feed now g = g \<and> play now g = g \<and> nap now g = g \<and> clean now g = g) \<and>
   (stage g \<noteq> Egg \<longrightarrow> hatch now g = g)"
  by (simp add: feed_def play_def nap_def clean_def hatch_def)

theorem gated_handlers_noop_witness:
  "stage \<lparr>stage = Dead, age = 24, pet = freshPet 0\<rparr> \<noteq> Alive \<and>
   feed 1 \<lparr>stage = Dead, age = 24, pet = freshPet 0\<rparr> =
     \<lparr>stage = Dead, age = 24, pet = freshPet 0\<rparr> \<and>
   play 1 \<lparr>stage = Dead, age = 24, pet = freshPet 0\<rparr> =
     \<lparr>stage = Dead, age = 24, pet = freshPet 0\<rparr> \<and>
   nap 1 \<lparr>stage = Dead, age = 24, pet = freshPet 0\<rparr> =
     \<lparr>stage = Dead, age = 24, pet = freshPet 0\<rparr> \<and>
   clean 1 \<lparr>stage = Dead, age = 24, pet = freshPet 0\<rparr> =
     \<lparr>stage = Dead, age = 24, pet = freshPet 0\<rparr> \<and>
   stage \<lparr>stage = Dead, age = 24, pet = freshPet 0\<rparr> \<noteq> Egg \<and>
   hatch 1 \<lparr>stage = Dead, age = 24, pet = freshPet 0\<rparr> =
     \<lparr>stage = Dead, age = 24, pet = freshPet 0\<rparr>"
  using gated_handlers_noop [of "\<lparr>stage = Dead, age = 24, pet = freshPet 0\<rparr>" 1]
  by simp

text \<open>
  C8. In the alive stage each care action changes exactly the attributes of its row, by
  the clamped delta, and stamps \<open>lastUpdated\<close> with the clock reading; age and stage
  stay. Feed: hunger +15, cleanliness -5. Play: hunger -6, happiness +18, energy -10,
  cleanliness -6. Nap: hunger -5, happiness +4, energy +20. Clean: happiness +3,
  cleanliness +22.
\<close>

theorem care_action_deltas:
  "stage g = Alive \<Longrightarrow>
     feed now g = \<lparr>stage = Alive, age = age g,
        pet = \<lparr>hunger = clamp (hunger (pet g) + 15), happiness = happiness (pet g),
               energy = energy (pet g), cleanliness = clamp (cleanliness (pet g) - 5),
               lastUpdated = now\<rparr>\<rparr> \<and>
     play now g = \<lparr>stage = Alive, age = age g,
        pet = \<lparr>hunger = clamp (hunger (pet g) - 6), happiness = clamp (happiness (pet g) + 18),
               energy = clamp (energy (pet g) - 10), cleanliness = clamp (cleanliness (pet g) - 6),
               lastUpdated = now\<rparr>\<rparr> \<and>
     nap now g = \<lparr>stage = Alive, age = age g,
        pet = \<lparr>hunger = clamp (hunger (pet g) - 5), happiness = clamp (happiness (pet g) + 4),
               energy = clamp (energy (pet g) + 20), cleanliness = cleanliness (pet g),
               lastUpdated = now\<rparr>\<rparr> \<and>
     clean now g = \<lparr>stage = Alive, age = age g,
        pet = \<lparr>hunger = hunger (pet g), happiness = clamp (happiness (pet g) + 3),
               energy = energy (pet g), cleanliness = clamp (cleanliness (pet g) + 22),
               lastUpdated = now\<rparr>\<rparr>"
  by (cases g, cases "pet g")
     (simp add: feed_def play_def nap_def clean_def feedPet_def playPet_def napPet_def cleanPet_def)

theorem care_action_deltas_witness:
  "stage \<lparr>stage = Alive, age = 3, pet = freshPet 0\<rparr> = Alive \<and>
   feed 7 \<lparr>stage = Alive, age = 3, pet = freshPet 0\<rparr> =
     \<lparr>stage = Alive, age = 3,
      pet = \<lparr>hunger = 85, happiness = 60, energy = 80, cleanliness = 85, lastUpdated = 7\<rparr>\<rparr> \<and>
   play 7 \<lparr>stage = Alive, age = 3, pet = freshPet 0\<rparr> =
     \<lparr>stage = Alive, age = 3,
      pet = \<lparr>hunger = 64, happiness = 78, energy = 70, cleanliness = 84, lastUpdated = 7\<rparr>\<rparr> \<and>
   nap 7 \<lparr>stage = Alive, age = 3, pet = freshPet 0\<rparr> =
     \<lparr>stage = Alive, age = 3,
      pet = \<lparr>hunger = 65, happiness = 64, energy = 100, cleanliness = 90, lastUpdated = 7\<rparr>\<rparr> \<and>
   clean 7 \<lparr>stage = Alive, age = 3, pet = freshPet 0\<rparr> =
     \<lparr>stage = Alive, age = 3,
      pet = \<lparr>hunger = 70, happiness = 63, energy = 80, cleanliness = 100, lastUpdated = 7\<rparr>\<rparr>"
  using care_action_deltas [of "\<lparr>stage = Alive, age = 3, pet = freshPet 0\<rparr>" 7]
  by (simp add: freshPet_def clamp_def)


section \<open>Life stages\<close>

text \<open>
  C4. Whatever happens to the mounted component, the stage changes in four ways only:
  from egg by a click on Hatch, to hatching; from hatching by the hatch timer, to alive;
  from alive by the death check at an age of at least \<open>MAX_AGE\<close>, to dead; from dead
  by a click on Restart, to egg. This holds in every state, reachable or not.
\<close>

theorem stage_changes_only:
  "enabled e g \<Longrightarrow> stage (fire e g) \<noteq> stage g \<Longrightarrow>
     (stage g = Egg \<and> (\<exists>now. e = ClickHatch now) \<and> stage (fire e g) = Hatching) \<or>
     (stage g = Hatching \<and> e = HatchTimer \<and> stage (fire e g) = Alive) \<or>
     (stage g = Alive \<and> e = DeathEffect \<and> age g \<ge> MAX_AGE \<and> stage (fire e g) = Dead) \<or>
     (stage g = Dead \<and> (\<exists>now. e = ClickRestart now) \<and> stage (fire e g) = Egg)"
  by (cases e)
     (auto simp: hatch_def restart_def feed_def play_def nap_def clean_def hatchTimeout_def
        tick_def deathCheck_def split: if_splits)

theorem stage_changes_only_witness:
  "enabled (ClickHatch 7) \<lparr>stage = Egg, age = 0, pet = freshPet 0\<rparr> \<and>
   stage (fire (ClickHatch 7) \<lparr>stage = Egg, age = 0, pet = freshPet 0\<rparr>) = Hatching \<and>
   enabled HatchTimer \<lparr>stage = Hatching, age = 0, pet = freshPet 7\<rparr> \<and>
   stage (fire HatchTimer \<lparr>stage = Hatching, age = 0, pet = freshPet 7\<rparr>) = Alive \<and>
   enabled DeathEffect \<lparr>stage = Alive, age = 24, pet = freshPet 7\<rparr> \<and>
   stage (fire DeathEffect \<lparr>stage = Alive, age = 24, pet = freshPet 7\<rparr>) = Dead \<and>
   enabled (ClickRestart 9) \<lparr>stage = Dead, age = 24, pet = freshPet 7\<rparr> \<and>
   stage (fire (ClickRestart 9) \<lparr>stage = Dead, age = 24, pet = freshPet 7\<rparr>) = Egg"
proof -
  have 1: "stage (fire (ClickHatch 7) \<lparr>stage = Egg, age = 0, pet = freshPet 0\<rparr>) \<noteq>
      stage \<lparr>stage = Egg, age = 0, pet = freshPet 0\<rparr>"
    by (simp add: hatch_def)
  have 2: "stage (fire HatchTimer \<lparr>stage = Hatching, age = 0, pet = freshPet 7\<rparr>) \<noteq>
      stage \<lparr>stage = Hatching, age = 0, pet = freshPet 7\<rparr>"
    by (simp add: hatchTimeout_def)
  have 3: "stage (fire DeathEffect \<lparr>stage = Alive, age = 24, pet = freshPet 7\<rparr>) \<noteq>
      stage \<lparr>stage = Alive, age = 24, pet = freshPet 7\<rparr>"
    by (simp add: deathCheck_def MAX_AGE_def)
  have 4: "stage (fire (ClickRestart 9) \<lparr>stage = Dead, age = 24, pet = freshPet 7\<rparr>) \<noteq>
      stage \<lparr>stage = Dead, age = 24, pet = freshPet 7\<rparr>"
    by (simp add: restart_def)
  show ?thesis
    using stage_changes_only [OF _ 1] stage_changes_only [OF _ 2]
      stage_changes_only [OF _ 3] stage_changes_only [OF _ 4]
    by simp
qed

text \<open>
  The restart handler has no stage guard of its own: called in any stage it gives an
  egg. Only the Restart button calls it, and only the dead stage renders that button.
\<close>

lemma restart_any_stage: "stage (restart now g) = Egg"
  by (simp add: restart_def)

text \<open>
  C6. From an alive pet of age \<open>MAX_AGE - 1\<close> the death check changes nothing; one
  tick gives age \<open>MAX_AGE\<close> and the attributes decayed by the five seconds of a tick,
  still in the alive stage; the death check that follows changes the stage to dead and
  keeps the age and the decayed attributes.
\<close>

theorem final_tick_then_death:
  "stage g = Alive \<Longrightarrow> age g = MAX_AGE - 1 \<Longrightarrow>
     deathCheck g = g \<and>
     tick now g = g\<lparr>age := MAX_AGE, pet := (applyDecay (pet g) 5)\<lparr>lastUpdated := now\<rparr>\<rparr> \<and>
     stage (tick now g) = Alive \<and>
     deathCheck (tick now g) = (tick now g)\<lparr>stage := Dead\<rparr>"
  by (simp add: tick_def deathCheck_def TICK_MS_def MAX_AGE_def)

theorem final_tick_then_death_witness:
  "stage \<lparr>stage = Alive, age = 23, pet = freshPet 0\<rparr> = Alive \<and>
   age \<lparr>stage = Alive, age = 23, pet = freshPet 0\<rparr> = MAX_AGE - 1 \<and>
   tick 5000 \<lparr>stage = Alive, age = 23, pet = freshPet 0\<rparr> =
     \<lparr>stage = Alive, age = 24,
      pet = \<lparr>hunger = 68.75, happiness = 58.5, energy = 79.1, cleanliness = 88.9,
             lastUpdated = 5000\<rparr>\<rparr> \<and>
   deathCheck (tick 5000 \<lparr>stage = Alive, age = 23, pet = freshPet 0\<rparr>) =
     \<lparr>stage = Dead, age = 24,
      pet = \<lparr>hunger = 68.75, happiness = 58.5, energy = 79.1, cleanliness = 88.9,
             lastUpdated = 5000\<rparr>\<rparr>"
proof -
  have a: "age \<lparr>stage = Alive, age = 23, pet = freshPet 0\<rparr> = MAX_AGE - 1"
    by (simp add: MAX_AGE_def)
  show ?thesis
    using a final_tick_then_death [of "\<lparr>stage = Alive, age = 23, pet = freshPet 0\<rparr>" 5000]
    by (simp add: MAX_AGE_def freshPet_def applyDecay_def clamp_def hungerDecay_def
        happinessDecay_def energyDecay_def cleanlinessDecay_def tick_def deathCheck_def
        TICK_MS_def)
qed


section \<open>Decay\<close>

lemma clamp_compose_unsaturated:
  assumes "0 \<le> v + r * a" and "v + r * a \<le> 100"
    and "0 \<le> clamp (v + r * a) + r * b" and "clamp (v + r * a) + r * b \<le> 100"
  shows "clamp (clamp (v + r * a) + r * b) = clamp (v + r * (a + b))"
proof -
  have "clamp (v + r * a) = v + r * a"
    using assms(1,2) by (rule clamp_id)
  then show ?thesis
    by (simp add: distrib_left add.assoc)
qed

lemma clamp_floor: "0 \<le> k \<Longrightarrow> 0 \<le> b \<Longrightarrow> clamp (0 + (- k) * b) = 0"
proof -
  assume "0 \<le> k" and "0 \<le> b"
  then have "0 \<le> k * b" by simp
  then show ?thesis by (simp add: clamp_def)
qed

text \<open>
  In exact arithmetic, decaying by \<open>a\<close> and then by \<open>b\<close> equals decaying by \<open>a + b\<close>
  when neither application saturates, and an attribute at 0 stays at 0.
\<close>

lemma decay_composition_exact:
  "(0 \<le> a \<and> 0 \<le> b \<and> unsaturated s a \<and> unsaturated (applyDecay s a) b \<longrightarrow>
      applyDecay (applyDecay s a) b = applyDecay s (a + b)) \<and>
   (0 \<le> b \<longrightarrow>
      (hunger s = 0 \<longrightarrow> hunger (applyDecay s b) = 0) \<and>
      (happiness s = 0 \<longrightarrow> happiness (applyDecay s b) = 0) \<and>
      (energy s = 0 \<longrightarrow> energy (applyDecay s b) = 0) \<and>
      (cleanliness s = 0 \<longrightarrow> cleanliness (applyDecay s b) = 0))"
proof (intro conjI impI)
  assume h: "0 \<le> a \<and> 0 \<le> b \<and> unsaturated s a \<and> unsaturated (applyDecay s a) b"
  from h have u1: "unsaturated s a" and u2: "unsaturated (applyDecay s a) b"
    by simp_all
  have "clamp (clamp (hunger s + hungerDecay * a) + hungerDecay * b) =
        clamp (hunger s + hungerDecay * (a + b))"
    using u1 u2 by (intro clamp_compose_unsaturated) (simp_all add: unsaturated_def applyDecay_def)
  moreover have "clamp (clamp (happiness s + happinessDecay * a) + happinessDecay * b) =
        clamp (happiness s + happinessDecay * (a + b))"
    using u1 u2 by (intro clamp_compose_unsaturated) (simp_all add: unsaturated_def applyDecay_def)
  moreover have "clamp (clamp (energy s + energyDecay * a) + energyDecay * b) =
        clamp (energy s + energyDecay * (a + b))"
    using u1 u2 by (intro clamp_compose_unsaturated) (simp_all add: unsaturated_def applyDecay_def)
  moreover have "clamp (clamp (cleanliness s + cleanlinessDecay * a) + cleanlinessDecay * b) =
        clamp (cleanliness s + cleanlinessDecay * (a + b))"
    using u1 u2 by (intro clamp_compose_unsaturated) (simp_all add: unsaturated_def applyDecay_def)
  ultimately show "applyDecay (applyDecay s a) b = applyDecay s (a + b)"
    by (simp add: applyDecay_def)
next
  assume "0 \<le> b" and "hunger s = 0"
  then show "hunger (applyDecay s b) = 0"
    using clamp_floor [of "0.25" b] by (simp add: applyDecay_def hungerDecay_def)
next
  assume "0 \<le> b" and "happiness s = 0"
  then show "happiness (applyDecay s b) = 0"
    using clamp_floor [of "0.30" b] by (simp add: applyDecay_def happinessDecay_def)
next
  assume "0 \<le> b" and "energy s = 0"
  then show "energy (applyDecay s b) = 0"
    using clamp_floor [of "0.18" b] by (simp add: applyDecay_def energyDecay_def)
next
  assume "0 \<le> b" and "cleanliness s = 0"
  then show "cleanliness (applyDecay s b) = 0"
    using clamp_floor [of "0.22" b] by (simp add: applyDecay_def cleanlinessDecay_def)
qed

subsection \<open>Rounding\<close>

lemma rne_error: "\<bar>of_int (rne x) - x\<bar> \<le> 1 / 2"
  unfolding rne_def Let_def by (auto; linarith)

lemma rne_nonpos: "x \<le> 0 \<Longrightarrow> rne x \<le> 0"
  unfolding rne_def Let_def by (auto; linarith)

lemma rnd_nonpos: "x \<le> 0 \<Longrightarrow> rnd x \<le> 0"
proof -
  assume x: "x \<le> 0"
  have s: "0 < (2::real) powi (expo x - 52)"
    by simp
  then have "x / 2 powi (expo x - 52) \<le> 0"
    using x by (simp add: divide_nonpos_pos)
  then have "rne (x / 2 powi (expo x - 52)) \<le> 0"
    by (rule rne_nonpos)
  then have "real_of_int (rne (x / 2 powi (expo x - 52))) \<le> 0"
    by simp
  then show ?thesis
    using s by (simp add: rnd_def mult_nonpos_nonneg)
qed

lemma expo_scale:
  assumes "x \<noteq> 0"
  shows "2 powi (expo x - 52) / 2 \<le> \<bar>x\<bar> / 2 ^ 53 + 1 / 2 ^ 1075"
proof (cases "- 1022 \<le> \<lfloor>log 2 \<bar>x\<bar>\<rfloor>")
  case True
  then have e: "expo x = \<lfloor>log 2 \<bar>x\<bar>\<rfloor>"
    by (simp add: expo_def)
  have pos: "0 < \<bar>x\<bar>"
    using assms by simp
  have "real_of_int \<lfloor>log 2 \<bar>x\<bar>\<rfloor> \<le> log 2 \<bar>x\<bar>"
    by simp
  then have "2 powr real_of_int \<lfloor>log 2 \<bar>x\<bar>\<rfloor> \<le> \<bar>x\<bar>"
    using pos le_log_iff [of 2 "\<bar>x\<bar>" "real_of_int \<lfloor>log 2 \<bar>x\<bar>\<rfloor>"] by simp
  then have le: "2 powi (expo x) \<le> \<bar>x\<bar>"
    using e by (simp add: powr_real_of_int')
  have "(2::real) powi (expo x - 52) = 2 powi (expo x) / 2 ^ 52"
    by (simp add: power_int_diff)
  then have "(2::real) powi (expo x - 52) / 2 \<le> \<bar>x\<bar> / 2 ^ 53"
    using le by simp
  then show ?thesis
    by (smt (verit) zero_less_power divide_pos_pos)
next
  case False
  then have e: "expo x = - 1022"
    by (simp add: expo_def)
  have "(2::real) powi (- 1022 - 52) / 2 = 1 / 2 ^ 1075"
    by (simp add: power_int_minus field_simps)
  then show ?thesis
    using e by simp
qed

text \<open>
  The error of one rounding: half a unit in the last place, at most \<open>2 powi (- 53)\<close>
  relative to the value, or \<open>2 powi (- 1075)\<close> in the subnormal range.
\<close>

lemma rnd_error: "\<bar>rnd x - x\<bar> \<le> \<bar>x\<bar> / 2 ^ 53 + 1 / 2 ^ 1075"
proof (cases "x = 0")
  case True
  then show ?thesis by (simp add: rnd_def)
next
  case False
  define s :: real where "s = 2 powi (expo x - 52)"
  have s: "0 < s"
    by (simp add: s_def)
  define m where "m = x / s"
  have x: "x = m * s"
    using s by (simp add: m_def)
  have r: "rnd x = of_int (rne m) * s"
    using False by (simp add: rnd_def s_def m_def)
  have "rnd x - x = (of_int (rne m) - m) * s"
    unfolding r using x by (simp add: algebra_simps)
  then have "\<bar>rnd x - x\<bar> = \<bar>of_int (rne m) - m\<bar> * s"
    using s by (simp add: abs_mult)
  also have "\<dots> \<le> 1 / 2 * s"
    using rne_error [of m] s by (intro mult_right_mono) simp_all
  also have "\<dots> \<le> \<bar>x\<bar> / 2 ^ 53 + 1 / 2 ^ 1075"
    using expo_scale [OF False] by (simp add: s_def)
  finally show ?thesis .
qed

lemma rnd_error_le: "\<bar>x\<bar> \<le> M \<Longrightarrow> \<bar>rnd x - x\<bar> \<le> (M + 1) / 2 ^ 53"
proof -
  assume m: "\<bar>x\<bar> \<le> M"
  have "(1::real) / 2 ^ 1075 \<le> 1 / 2 ^ 53"
    by (intro divide_left_mono power_increasing) simp_all
  moreover have "\<bar>x\<bar> / 2 ^ 53 \<le> M / 2 ^ 53"
    using m by (simp add: divide_right_mono)
  ultimately show ?thesis
    using rnd_error [of x] by (simp add: add_divide_distrib)
qed

lemma rnd_in_range:
  assumes "0 \<le> rnd x" and "rnd x \<le> 100"
  shows "- 1 \<le> x \<and> x \<le> 101"
proof -
  have "\<bar>rnd x - x\<bar> \<le> (\<bar>x\<bar> + 1) / 2 ^ 53"
    by (rule rnd_error_le) simp
  then show ?thesis
    using assms by (simp add: abs_if field_simps split: if_splits)
qed

lemma rnd_source_le:
  assumes "\<bar>rnd x\<bar> \<le> M"
  shows "\<bar>x\<bar> \<le> 2 * M + 1"
proof -
  have "\<bar>rnd x - x\<bar> \<le> (\<bar>x\<bar> + 1) / 2 ^ 53"
    by (rule rnd_error_le) simp
  then show ?thesis
    using assms by (simp add: abs_if field_simps split: if_splits)
qed

lemma clamp_lipschitz: "\<bar>clamp x - clamp y\<bar> \<le> \<bar>x - y\<bar>"
  by (simp add: clamp_def)

text \<open>
  \<open>rnd\<close> at a value whose binary exponent is known.
\<close>

lemma rnd_eval:
  assumes "2 powi e \<le> \<bar>x\<bar>" and "\<bar>x\<bar> < 2 powi (e + 1)" and "- 1022 \<le> e"
  shows "rnd x = of_int (rne (x / 2 powi (e - 52))) * 2 powi (e - 52)"
proof -
  have pos: "0 < \<bar>x\<bar>"
    using assms(1) by (smt (verit) zero_less_power_int)
  have a: "2 powr real_of_int e \<le> \<bar>x\<bar>"
    using assms(1) by (simp add: powr_real_of_int')
  have "(2::real) powr real_of_int (e + 1) = 2 powi (e + 1)"
    by (rule powr_real_of_int') simp_all
  then have b: "\<bar>x\<bar> < 2 powr real_of_int (e + 1)"
    using assms(2) by simp
  have "\<lfloor>log 2 \<bar>x\<bar>\<rfloor> = e"
    using pos a b floor_log_eq_powr_iff [of "\<bar>x\<bar>" 2 e] by simp
  then have "expo x = e"
    using assms(3) by (simp add: expo_def)
  then show ?thesis
    using pos by (simp add: rnd_def)
qed

subsection \<open>Composition of decays in the program\<close>

text \<open>
  One attribute, with \<open>r\<close> the double of its rate: the value after two decays and the
  value after one decay by the rounded sum differ by the rounding errors of the seven
  operations involved.
\<close>

lemma compose64_attr:
  fixes r v a b :: real
  assumes r: "- 1 / 2 \<le> r" "r \<le> - 1 / 8"
    and a: "0 \<le> a" and b: "0 \<le> b"
    and u1: "0 \<le> rnd (v + rnd (r * a))" "rnd (v + rnd (r * a)) \<le> 100"
    and u2: "0 \<le> rnd (clamp (rnd (v + rnd (r * a))) + rnd (r * b))"
      "rnd (clamp (rnd (v + rnd (r * a))) + rnd (r * b)) \<le> 100"
  shows "\<bar>clamp (rnd (clamp (rnd (v + rnd (r * a))) + rnd (r * b))) -
          clamp (rnd (v + rnd (r * rnd (a + b))))\<bar> \<le> (v + 100) / 2 ^ 46"
proof -
  define t1 where "t1 = rnd (r * a)"
  define w1 where "w1 = rnd (v + t1)"
  define t2 where "t2 = rnd (r * b)"
  define w2 where "w2 = rnd (w1 + t2)"
  define c where "c = rnd (a + b)"
  define t3 where "t3 = rnd (r * c)"
  define w3 where "w3 = rnd (v + t3)"
  have w1r: "0 \<le> w1" "w1 \<le> 100"
    using u1 by (simp_all add: w1_def t1_def)
  then have cw1: "clamp w1 = w1"
    by (simp add: clamp_id)
  have w2r: "0 \<le> w2" "w2 \<le> 100"
    using u2 cw1 by (simp_all add: w2_def w1_def t1_def t2_def)
  then have cw2: "clamp w2 = w2"
    by (simp add: clamp_id)
  \<comment> \<open>the first application\<close>
  have "r * a \<le> (- 1 / 8) * a"
    using r(2) a by (rule mult_right_mono)
  then have ra: "r * a \<le> 0" "a \<le> - 8 * (r * a)"
    using a by simp_all
  have t1n: "t1 \<le> 0"
    using ra(1) by (simp add: t1_def rnd_nonpos)
  have x1: "- 1 \<le> v + t1" "v + t1 \<le> 101"
    using rnd_in_range [of "v + t1"] w1r by (simp_all add: w1_def)
  have v: "- 1 \<le> v"
    using x1 t1n by simp
  have e1: "\<bar>w1 - (v + t1)\<bar> \<le> 102 / 2 ^ 53"
    using rnd_error_le [of "v + t1" 101] x1 by (simp add: w1_def)
  have t1b: "\<bar>t1\<bar> \<le> v + 1"
    using x1 t1n by simp
  have ab: "\<bar>r * a\<bar> \<le> 2 * v + 3"
    using rnd_source_le [of "r * a" "v + 1"] t1b by (simp add: t1_def)
  have d1: "\<bar>t1 - r * a\<bar> \<le> (2 * v + 4) / 2 ^ 53"
    using rnd_error_le [of "r * a" "2 * v + 3"] ab by (simp add: t1_def)
  \<comment> \<open>the second application\<close>
  have "r * b \<le> (- 1 / 8) * b"
    using r(2) b by (rule mult_right_mono)
  then have rb: "r * b \<le> 0" "b \<le> - 8 * (r * b)"
    using b by simp_all
  have t2n: "t2 \<le> 0"
    using rb(1) by (simp add: t2_def rnd_nonpos)
  have x2: "- 1 \<le> w1 + t2" "w1 + t2 \<le> 101"
    using rnd_in_range [of "w1 + t2"] w2r by (simp_all add: w2_def)
  have e2: "\<bar>w2 - (w1 + t2)\<bar> \<le> 102 / 2 ^ 53"
    using rnd_error_le [of "w1 + t2" 101] x2 by (simp add: w2_def)
  have t2b: "\<bar>t2\<bar> \<le> 101"
    using x2 t2n w1r by simp
  have bb: "\<bar>r * b\<bar> \<le> 203"
    using rnd_source_le [of "r * b" 101] t2b by (simp add: t2_def)
  have d2: "\<bar>t2 - r * b\<bar> \<le> 204 / 2 ^ 53"
    using rnd_error_le [of "r * b" 203] bb by (simp add: t2_def)
  \<comment> \<open>the single application\<close>
  have s: "0 \<le> a + b" "a + b \<le> 16 * v + 1648"
    using a b ra rb ab bb by simp_all
  have e0: "\<bar>c - (a + b)\<bar> \<le> (16 * v + 1649) / 2 ^ 53"
    using rnd_error_le [of "a + b" "16 * v + 1648"] s by (simp add: c_def)
  have re0: "\<bar>r * c - (r * a + r * b)\<bar> \<le> (16 * v + 1649) / 2 ^ 53 / 2"
  proof -
    have "r * c - (r * a + r * b) = r * (c - (a + b))"
      by (simp add: algebra_simps)
    moreover have "\<bar>r * (c - (a + b))\<bar> \<le> 1 / 2 * \<bar>c - (a + b)\<bar>"
      unfolding abs_mult using r by (intro mult_right_mono) simp_all
    ultimately show ?thesis
      using e0 by simp
  qed
  have cb: "\<bar>r * c\<bar> \<le> 18 * v + 1855"
  proof -
    have "(16 * v + 1649) / 2 ^ 53 / 2 \<le> 16 * v + 1649"
      using v by (simp add: field_simps)
    then show ?thesis
      using re0 ab bb by linarith
  qed
  have d3: "\<bar>t3 - r * c\<bar> \<le> (18 * v + 1856) / 2 ^ 53"
    using rnd_error_le [of "r * c" "18 * v + 1855"] cb by (simp add: t3_def)
  have t3b: "\<bar>t3\<bar> \<le> 36 * v + 3711"
  proof -
    have "(18 * v + 1856) / 2 ^ 53 \<le> 18 * v + 1856"
      using v by (simp add: field_simps)
    then show ?thesis
      using d3 cb by linarith
  qed
  have vt3: "\<bar>v + t3\<bar> \<le> 37 * v + 3713"
    using t3b v by linarith
  have e3: "\<bar>w3 - (v + t3)\<bar> \<le> (37 * v + 3714) / 2 ^ 53"
    using rnd_error_le [of "v + t3" "37 * v + 3713"] vt3 by (simp add: w3_def)
  \<comment> \<open>the two results\<close>
  have "\<bar>w2 - w3\<bar> \<le>
    102 / 2 ^ 53 + (2 * v + 4) / 2 ^ 53 + 102 / 2 ^ 53 + 204 / 2 ^ 53 +
    (16 * v + 1649) / 2 ^ 53 / 2 + (18 * v + 1856) / 2 ^ 53 + (37 * v + 3714) / 2 ^ 53"
    using e1 d1 e2 d2 re0 d3 e3 by linarith
  also have "\<dots> \<le> (v + 100) / 2 ^ 46"
    using v by (simp add: field_simps)
  finally have "\<bar>w2 - w3\<bar> \<le> (v + 100) / 2 ^ 46" .
  moreover have "\<bar>clamp w2 - clamp w3\<bar> \<le> \<bar>w2 - w3\<bar>"
    by (rule clamp_lipschitz)
  ultimately have "\<bar>clamp w2 - clamp w3\<bar> \<le> (v + 100) / 2 ^ 46"
    by simp
  then show ?thesis
    using cw1 by (simp add: w2_def w3_def w1_def t1_def t2_def t3_def c_def)
qed

lemma floor64_attr: "r \<le> 0 \<Longrightarrow> 0 \<le> b \<Longrightarrow> clamp (rnd (0 + rnd (r * b))) = 0"
proof -
  assume "r \<le> 0" and "0 \<le> b"
  then have "r * b \<le> 0"
    by (simp add: mult_nonpos_nonneg)
  then have "rnd (r * b) \<le> 0"
    by (rule rnd_nonpos)
  then have "rnd (0 + rnd (r * b)) \<le> 0"
    by (simp add: rnd_nonpos)
  then show ?thesis
    by (simp add: clamp_def)
qed

text \<open>
  The decay of a fresh pet by 10 and then by 20 seconds, and by 30 seconds at once,
  operation by operation.
\<close>

lemma d64_sum: "rnd (10 + 20) = 30"
  by (subst rnd_eval [of "4"]) (simp_all add: rne_def Let_def power_int_minus)

lemma d64_hunger_rate: "rnd (- 0.25) = - 1 / 2 ^ 2"
  by (subst rnd_eval [of "- 2"]) (simp_all add: rne_def Let_def power_int_minus)

lemma d64_hunger_t1: "rnd (- 1 / 2 ^ 2 * 10) = - 5 / 2"
  by (subst rnd_eval [of "1"]) (simp_all add: rne_def Let_def power_int_minus)

lemma d64_hunger_w1: "rnd (70 + - 5 / 2) = 135 / 2"
  by (subst rnd_eval [of "6"]) (simp_all add: rne_def Let_def power_int_minus)

lemma d64_hunger_c1: "clamp (135 / 2) = 135 / 2"
  by (simp add: clamp_def)

lemma d64_hunger_t2: "rnd (- 1 / 2 ^ 2 * 20) = - 5"
  by (subst rnd_eval [of "2"]) (simp_all add: rne_def Let_def power_int_minus)

lemma d64_hunger_w2: "rnd (135 / 2 + - 5) = 125 / 2"
  by (subst rnd_eval [of "5"]) (simp_all add: rne_def Let_def power_int_minus)

lemma d64_hunger_c2: "clamp (125 / 2) = 125 / 2"
  by (simp add: clamp_def)

lemma d64_hunger_t3: "rnd (- 1 / 2 ^ 2 * 30) = - 15 / 2"
  by (subst rnd_eval [of "2"]) (simp_all add: rne_def Let_def power_int_minus)

lemma d64_hunger_w3: "rnd (70 + - 15 / 2) = 125 / 2"
  by (subst rnd_eval [of "5"]) (simp_all add: rne_def Let_def power_int_minus)

lemma d64_happiness_rate: "rnd (- 0.30) = - 5404319552844595 / 2 ^ 54"
  by (subst rnd_eval [of "- 2"]) (simp_all add: rne_def Let_def power_int_minus)

lemma d64_happiness_t1: "rnd (- 5404319552844595 / 2 ^ 54 * 10) = - 3"
  by (subst rnd_eval [of "1"]) (simp_all add: rne_def Let_def power_int_minus)

lemma d64_happiness_w1: "rnd (60 + - 3) = 57"
  by (subst rnd_eval [of "5"]) (simp_all add: rne_def Let_def power_int_minus)

lemma d64_happiness_c1: "clamp (57) = 57"
  by (simp add: clamp_def)

lemma d64_happiness_t2: "rnd (- 5404319552844595 / 2 ^ 54 * 20) = - 6"
  by (subst rnd_eval [of "2"]) (simp_all add: rne_def Let_def power_int_minus)

lemma d64_happiness_w2: "rnd (57 + - 6) = 51"
  by (subst rnd_eval [of "5"]) (simp_all add: rne_def Let_def power_int_minus)

lemma d64_happiness_c2: "clamp (51) = 51"
  by (simp add: clamp_def)

lemma d64_happiness_t3: "rnd (- 5404319552844595 / 2 ^ 54 * 30) = - 9"
  by (subst rnd_eval [of "3"]) (simp_all add: rne_def Let_def power_int_minus)

lemma d64_happiness_w3: "rnd (60 + - 9) = 51"
  by (subst rnd_eval [of "5"]) (simp_all add: rne_def Let_def power_int_minus)

lemma d64_energy_rate: "rnd (- 0.18) = - 3242591731706757 / 2 ^ 54"
  by (subst rnd_eval [of "- 3"]) (simp_all add: rne_def Let_def power_int_minus)

lemma d64_energy_t1: "rnd (- 3242591731706757 / 2 ^ 54 * 10) = - 2026619832316723 / 2 ^ 50"
  by (subst rnd_eval [of "0"]) (simp_all add: rne_def Let_def power_int_minus)

lemma d64_energy_w1: "rnd (80 + - 2026619832316723 / 2 ^ 50) = 5502835794693325 / 2 ^ 46"
  by (subst rnd_eval [of "6"]) (simp_all add: rne_def Let_def power_int_minus)

lemma d64_energy_c1: "clamp (5502835794693325 / 2 ^ 46) = 5502835794693325 / 2 ^ 46"
  by (simp add: clamp_def)

lemma d64_energy_t2: "rnd (- 3242591731706757 / 2 ^ 54 * 20) = - 2026619832316723 / 2 ^ 49"
  by (subst rnd_eval [of "1"]) (simp_all add: rne_def Let_def power_int_minus)

lemma d64_energy_w2: "rnd (5502835794693325 / 2 ^ 46 + - 2026619832316723 / 2 ^ 49) = 5249508315653735 / 2 ^ 46"
  by (subst rnd_eval [of "6"]) (simp_all add: rne_def Let_def power_int_minus)

lemma d64_energy_c2: "clamp (5249508315653735 / 2 ^ 46) = 5249508315653735 / 2 ^ 46"
  by (simp add: clamp_def)

lemma d64_energy_t3: "rnd (- 3242591731706757 / 2 ^ 54 * 30) = - 6079859496950169 / 2 ^ 50"
  by (subst rnd_eval [of "2"]) (simp_all add: rne_def Let_def power_int_minus)

lemma d64_energy_w3: "rnd (80 + - 6079859496950169 / 2 ^ 50) = 2624754157826867 / 2 ^ 45"
  by (subst rnd_eval [of "6"]) (simp_all add: rne_def Let_def power_int_minus)

lemma d64_energy_c3: "clamp (2624754157826867 / 2 ^ 45) = 2624754157826867 / 2 ^ 45"
  by (simp add: clamp_def)

lemma d64_cleanliness_rate: "rnd (- 0.22) = - 7926335344172073 / 2 ^ 55"
  by (subst rnd_eval [of "- 3"]) (simp_all add: rne_def Let_def power_int_minus)

lemma d64_cleanliness_t1: "rnd (- 7926335344172073 / 2 ^ 55 * 10) = - 2476979795053773 / 2 ^ 50"
  by (subst rnd_eval [of "1"]) (simp_all add: rne_def Let_def power_int_minus)

lemma d64_cleanliness_w1: "rnd (90 + - 2476979795053773 / 2 ^ 50) = 6178375738798899 / 2 ^ 46"
  by (subst rnd_eval [of "6"]) (simp_all add: rne_def Let_def power_int_minus)

lemma d64_cleanliness_c1: "clamp (6178375738798899 / 2 ^ 46) = 6178375738798899 / 2 ^ 46"
  by (simp add: clamp_def)

lemma d64_cleanliness_t2: "rnd (- 7926335344172073 / 2 ^ 55 * 20) = - 2476979795053773 / 2 ^ 49"
  by (subst rnd_eval [of "2"]) (simp_all add: rne_def Let_def power_int_minus)

lemma d64_cleanliness_w2: "rnd (6178375738798899 / 2 ^ 46 + - 2476979795053773 / 2 ^ 49) = 5868753264417177 / 2 ^ 46"
  by (subst rnd_eval [of "6"]) (simp_all add: rne_def Let_def power_int_minus)

lemma d64_cleanliness_c2: "clamp (5868753264417177 / 2 ^ 46) = 5868753264417177 / 2 ^ 46"
  by (simp add: clamp_def)

lemma d64_cleanliness_t3: "rnd (- 7926335344172073 / 2 ^ 55 * 30) = - 3715469692580659 / 2 ^ 49"
  by (subst rnd_eval [of "2"]) (simp_all add: rne_def Let_def power_int_minus)

lemma d64_cleanliness_w3: "rnd (90 + - 3715469692580659 / 2 ^ 49) = 2934376632208589 / 2 ^ 45"
  by (subst rnd_eval [of "6"]) (simp_all add: rne_def Let_def power_int_minus)

lemma d64_cleanliness_c3: "clamp (2934376632208589 / 2 ^ 45) = 2934376632208589 / 2 ^ 45"
  by (simp add: clamp_def)

lemmas d64 = d64_sum d64_hunger_rate d64_hunger_t1 d64_hunger_w1 d64_hunger_c1 d64_hunger_t2 d64_hunger_w2 d64_hunger_c2 d64_hunger_t3 d64_hunger_w3 d64_happiness_rate d64_happiness_t1 d64_happiness_w1 d64_happiness_c1 d64_happiness_t2 d64_happiness_w2 d64_happiness_c2 d64_happiness_t3 d64_happiness_w3 d64_energy_rate d64_energy_t1 d64_energy_w1 d64_energy_c1 d64_energy_t2 d64_energy_w2 d64_energy_c2 d64_energy_t3 d64_energy_w3 d64_energy_c3 d64_cleanliness_rate d64_cleanliness_t1 d64_cleanliness_w1 d64_cleanliness_c1 d64_cleanliness_t2 d64_cleanliness_w2 d64_cleanliness_c2 d64_cleanliness_t3 d64_cleanliness_w3 d64_cleanliness_c3

lemma d64_fed_t: "rnd (- 1 / 2 ^ 2 * 4) = - 1"
  by (subst rnd_eval [of "0"]) (simp_all add: rne_def Let_def power_int_minus)

lemma d64_fed_w: "rnd (100 + - 1) = 99"
  by (subst rnd_eval [of "6"]) (simp_all add: rne_def Let_def power_int_minus)

lemma d64_fed_c: "clamp 99 = 99"
  by (simp add: clamp_def)

lemma fresh64_first:
  "applyDecay64 (freshPet 0) 10 =
     \<lparr>hunger = 135 / 2, happiness = 57, energy = 5502835794693325 / 2 ^ 46, cleanliness = 6178375738798899 / 2 ^ 46, lastUpdated = 0\<rparr>"
  unfolding applyDecay64_def freshPet_def hungerDecay_def happinessDecay_def energyDecay_def
    cleanlinessDecay_def
  by (simp only: PetState.select_convs d64)

lemma fresh64_second:
  "applyDecay64 (applyDecay64 (freshPet 0) 10) 20 =
     \<lparr>hunger = 125 / 2, happiness = 51, energy = 5249508315653735 / 2 ^ 46, cleanliness = 5868753264417177 / 2 ^ 46, lastUpdated = 0\<rparr>"
  unfolding fresh64_first
  unfolding applyDecay64_def hungerDecay_def happinessDecay_def energyDecay_def
    cleanlinessDecay_def
  by (simp only: PetState.select_convs d64)

lemma fresh64_single:
  "applyDecay64 (freshPet 0) (rnd (10 + 20)) =
     \<lparr>hunger = 125 / 2, happiness = 51, energy = 2624754157826867 / 2 ^ 45, cleanliness = 2934376632208589 / 2 ^ 45, lastUpdated = 0\<rparr>"
  unfolding applyDecay64_def freshPet_def hungerDecay_def happinessDecay_def energyDecay_def
    cleanlinessDecay_def
  by (simp only: PetState.select_convs d64)

lemma fresh64_unsaturated:
  "unsaturated64 (freshPet 0) 10" "unsaturated64 (applyDecay64 (freshPet 0) 10) 20"
  unfolding fresh64_first
  unfolding unsaturated64_def freshPet_def hungerDecay_def happinessDecay_def energyDecay_def
    cleanlinessDecay_def
  by (simp_all only: PetState.select_convs d64) simp_all

lemma rate64_bounds:
  "- 1 / 2 \<le> rnd hungerDecay \<and> rnd hungerDecay \<le> - 1 / 8"
  "- 1 / 2 \<le> rnd happinessDecay \<and> rnd happinessDecay \<le> - 1 / 8"
  "- 1 / 2 \<le> rnd energyDecay \<and> rnd energyDecay \<le> - 1 / 8"
  "- 1 / 2 \<le> rnd cleanlinessDecay \<and> rnd cleanlinessDecay \<le> - 1 / 8"
  unfolding hungerDecay_def happinessDecay_def energyDecay_def cleanlinessDecay_def
  by (simp_all only: d64) simp_all

text \<open>
  C9, as amended. In the program's arithmetic, for non-negative durations \<open>a\<close> and \<open>b\<close>
  and when neither application saturates, each attribute after a decay by \<open>a\<close> and then
  by \<open>b\<close> differs from the attribute after one decay by \<open>a + b\<close> by at most
  \<open>(v + 100) / 2 ^ 46\<close>, \<open>v\<close> the attribute's value before; and an attribute at the lower
  bound 0 stays 0 under a decay by a non-negative duration.
\<close>

theorem decay_composition:
  "(0 \<le> a \<and> 0 \<le> b \<and> unsaturated64 s a \<and> unsaturated64 (applyDecay64 s a) b \<longrightarrow>
      \<bar>hunger (applyDecay64 (applyDecay64 s a) b) - hunger (applyDecay64 s (rnd (a + b)))\<bar>
        \<le> (hunger s + 100) / 2 ^ 46 \<and>
      \<bar>happiness (applyDecay64 (applyDecay64 s a) b) -
        happiness (applyDecay64 s (rnd (a + b)))\<bar>
        \<le> (happiness s + 100) / 2 ^ 46 \<and>
      \<bar>energy (applyDecay64 (applyDecay64 s a) b) - energy (applyDecay64 s (rnd (a + b)))\<bar>
        \<le> (energy s + 100) / 2 ^ 46 \<and>
      \<bar>cleanliness (applyDecay64 (applyDecay64 s a) b) -
        cleanliness (applyDecay64 s (rnd (a + b)))\<bar>
        \<le> (cleanliness s + 100) / 2 ^ 46) \<and>
   (0 \<le> b \<longrightarrow>
      (hunger s = 0 \<longrightarrow> hunger (applyDecay64 s b) = 0) \<and>
      (happiness s = 0 \<longrightarrow> happiness (applyDecay64 s b) = 0) \<and>
      (energy s = 0 \<longrightarrow> energy (applyDecay64 s b) = 0) \<and>
      (cleanliness s = 0 \<longrightarrow> cleanliness (applyDecay64 s b) = 0))"
proof (intro conjI impI)
  assume h: "0 \<le> a \<and> 0 \<le> b \<and> unsaturated64 s a \<and> unsaturated64 (applyDecay64 s a) b"
  then have a: "0 \<le> a" and b: "0 \<le> b"
    and u1: "unsaturated64 s a" and u2: "unsaturated64 (applyDecay64 s a) b"
    by simp_all
  show "\<bar>hunger (applyDecay64 (applyDecay64 s a) b) - hunger (applyDecay64 s (rnd (a + b)))\<bar>
        \<le> (hunger s + 100) / 2 ^ 46"
    using compose64_attr [of "rnd hungerDecay" a b "hunger s"] rate64_bounds(1) a b u1 u2
    by (simp add: unsaturated64_def applyDecay64_def)
  show "\<bar>happiness (applyDecay64 (applyDecay64 s a) b) -
        happiness (applyDecay64 s (rnd (a + b)))\<bar>
        \<le> (happiness s + 100) / 2 ^ 46"
    using compose64_attr [of "rnd happinessDecay" a b "happiness s"] rate64_bounds(2) a b u1 u2
    by (simp add: unsaturated64_def applyDecay64_def)
  show "\<bar>energy (applyDecay64 (applyDecay64 s a) b) - energy (applyDecay64 s (rnd (a + b)))\<bar>
        \<le> (energy s + 100) / 2 ^ 46"
    using compose64_attr [of "rnd energyDecay" a b "energy s"] rate64_bounds(3) a b u1 u2
    by (simp add: unsaturated64_def applyDecay64_def)
  show "\<bar>cleanliness (applyDecay64 (applyDecay64 s a) b) -
        cleanliness (applyDecay64 s (rnd (a + b)))\<bar>
        \<le> (cleanliness s + 100) / 2 ^ 46"
    using compose64_attr [of "rnd cleanlinessDecay" a b "cleanliness s"] rate64_bounds(4) a b u1 u2
    by (simp add: unsaturated64_def applyDecay64_def)
next
  assume "0 \<le> b" and "hunger s = 0"
  then show "hunger (applyDecay64 s b) = 0"
    using floor64_attr [of "rnd hungerDecay" b] rate64_bounds(1)
    by (simp add: applyDecay64_def)
next
  assume "0 \<le> b" and "happiness s = 0"
  then show "happiness (applyDecay64 s b) = 0"
    using floor64_attr [of "rnd happinessDecay" b] rate64_bounds(2)
    by (simp add: applyDecay64_def)
next
  assume "0 \<le> b" and "energy s = 0"
  then show "energy (applyDecay64 s b) = 0"
    using floor64_attr [of "rnd energyDecay" b] rate64_bounds(3)
    by (simp add: applyDecay64_def)
next
  assume "0 \<le> b" and "cleanliness s = 0"
  then show "cleanliness (applyDecay64 s b) = 0"
    using floor64_attr [of "rnd cleanlinessDecay" b] rate64_bounds(4)
    by (simp add: applyDecay64_def)
qed

theorem decay_composition_witness:
  "(0::real) \<le> 10 \<and> (0::real) \<le> 20 \<and> unsaturated64 (freshPet 0) 10 \<and>
   unsaturated64 (applyDecay64 (freshPet 0) 10) 20 \<and>
   \<bar>energy (applyDecay64 (applyDecay64 (freshPet 0) 10) 20) -
     energy (applyDecay64 (freshPet 0) (rnd (10 + 20)))\<bar> \<le> (energy (freshPet 0) + 100) / 2 ^ 46 \<and>
   \<bar>cleanliness (applyDecay64 (applyDecay64 (freshPet 0) 10) 20) -
     cleanliness (applyDecay64 (freshPet 0) (rnd (10 + 20)))\<bar>
     \<le> (cleanliness (freshPet 0) + 100) / 2 ^ 46 \<and>
   hunger \<lparr>hunger = 0, happiness = 0, energy = 0, cleanliness = 0, lastUpdated = 0\<rparr> = 0 \<and>
   hunger (applyDecay64
     \<lparr>hunger = 0, happiness = 0, energy = 0, cleanliness = 0, lastUpdated = 0\<rparr> 20) = 0 \<and>
   happiness (applyDecay64
     \<lparr>hunger = 0, happiness = 0, energy = 0, cleanliness = 0, lastUpdated = 0\<rparr> 20) = 0 \<and>
   energy (applyDecay64
     \<lparr>hunger = 0, happiness = 0, energy = 0, cleanliness = 0, lastUpdated = 0\<rparr> 20) = 0 \<and>
   cleanliness (applyDecay64
     \<lparr>hunger = 0, happiness = 0, energy = 0, cleanliness = 0, lastUpdated = 0\<rparr> 20) = 0"
  using fresh64_unsaturated decay_composition [of 10 20 "freshPet 0"]
    decay_composition
      [of 10 20 "\<lparr>hunger = 0, happiness = 0, energy = 0, cleanliness = 0, lastUpdated = 0\<rparr>"]
  by simp

text \<open>
  The claim as stated fails twice. The two sides are not equal: for a fresh pet, with no
  saturation, energy is \<open>5249508315653735 / 2 ^ 46\<close> (74.60000000000001) after 10 and
  then 20 seconds and \<open>5249508315653734 / 2 ^ 46\<close> (74.6) after 30 seconds. And decay is
  not a no-op at the upper bound: feeding at hunger 90 clamps hunger at 100, and four
  seconds of decay lower it to 99.
\<close>

theorem decay_composition_counterexample:
  "unsaturated64 (freshPet 0) 10 \<and> unsaturated64 (applyDecay64 (freshPet 0) 10) 20 \<and>
   energy (applyDecay64 (applyDecay64 (freshPet 0) 10) 20) = 5249508315653735 / 2 ^ 46 \<and>
   energy (applyDecay64 (freshPet 0) (rnd (10 + 20))) = 5249508315653734 / 2 ^ 46 \<and>
   hunger (feedPet 0 \<lparr>hunger = 90, happiness = 60, energy = 80, cleanliness = 90,
                      lastUpdated = 0\<rparr>) = 100 \<and>
   hunger (applyDecay64 (feedPet 0 \<lparr>hunger = 90, happiness = 60, energy = 80, cleanliness = 90,
                                    lastUpdated = 0\<rparr>) 4) = 99"
proof -
  have fed: "feedPet 0 \<lparr>hunger = 90, happiness = 60, energy = 80, cleanliness = 90,
                         lastUpdated = 0\<rparr> =
      \<lparr>hunger = 100, happiness = 60, energy = 80, cleanliness = 85, lastUpdated = 0\<rparr>"
    by (simp add: feedPet_def clamp_def)
  have "hunger (applyDecay64
      \<lparr>hunger = 100, happiness = 60, energy = 80, cleanliness = 85, lastUpdated = 0\<rparr> 4) = 99"
    unfolding applyDecay64_def hungerDecay_def
    by (simp only: PetState.select_convs d64_hunger_rate d64_fed_t d64_fed_w d64_fed_c)
  then have h1: "hunger (applyDecay64 (feedPet 0 \<lparr>hunger = 90, happiness = 60, energy = 80,
      cleanliness = 90, lastUpdated = 0\<rparr>) 4) = 99"
    unfolding fed .
  have h0: "hunger (feedPet 0 \<lparr>hunger = 90, happiness = 60, energy = 80, cleanliness = 90,
      lastUpdated = 0\<rparr>) = 100"
    unfolding fed by simp
  have e2: "energy (applyDecay64 (applyDecay64 (freshPet 0) 10) 20) =
      5249508315653735 / 2 ^ 46"
    unfolding fresh64_second by simp
  have e1: "energy (applyDecay64 (freshPet 0) (rnd (10 + 20))) = 5249508315653734 / 2 ^ 46"
    unfolding fresh64_single by simp
  show ?thesis
    by (intro conjI fresh64_unsaturated e2 e1 h0 h1)
qed

lemma clamp_decay_le: "0 \<le> v \<Longrightarrow> 0 \<le> k \<Longrightarrow> 0 \<le> s \<Longrightarrow> clamp (v + (- k) * s) \<le> v"
proof -
  assume "0 \<le> v" and "0 \<le> k" and "0 \<le> s"
  then have "0 \<le> k * s" by simp
  then show ?thesis
    using \<open>0 \<le> v\<close> by (simp add: clamp_def)
qed

lemma clamp_decay_negative:
  "0 \<le> v \<Longrightarrow> 0 < k \<Longrightarrow> s < 0 \<Longrightarrow> clamp (v + (- k) * s) = min 100 (v + k * (- s))"
proof -
  assume "0 \<le> v" and "0 < k" and "s < 0"
  then have "k * s < 0" by (simp add: mult_pos_neg)
  then show ?thesis
    using \<open>0 \<le> v\<close> by (simp add: clamp_def)
qed

lemma field_obj: "field k p = Some v \<Longrightarrow> truthy p"
  by (cases p) simp_all

text \<open>
  What \<open>initialGame\<close> returns for a stored version-2 object whose pet has four numeric
  attributes, with \<open>t\<close> the value of \<open>saved.pet.lastUpdated || now\<close>.
\<close>

lemma initialGame_typed:
  assumes "raw \<noteq> []" and "parse raw = Some saved"
    and "field ''version'' saved = Some (JNum 2)"
    and "field ''pet'' saved = Some p"
    and "field ''hunger'' p = Some (JNum h)"
    and "field ''happiness'' p = Some (JNum ha)"
    and "field ''energy'' p = Some (JNum e)"
    and "field ''cleanliness'' p = Some (JNum c)"
    and "stageOrEgg (field ''stage'' saved) = Some st"
    and "lastUpdatedOr now (field ''lastUpdated'' p) = Some t"
  shows "initialGame parse now (ReadString raw) =
     Loaded \<lparr>stage = st, age = ageOrZero (field ''age'' saved),
       pet = (if st = Alive
              then (applyDecay \<lparr>hunger = h, happiness = ha, energy = e, cleanliness = c,
                                lastUpdated = t\<rparr> (of_int \<lfloor>(now - t) / 1000\<rfloor>))
                     \<lparr>lastUpdated := now\<rparr>
              else \<lparr>hunger = h, happiness = ha, energy = e, cleanliness = c,
                     lastUpdated = now\<rparr>)\<rparr>"
proof -
  have "truthy p"
    using assms(5) by (rule field_obj)
  then show ?thesis
    using assms by (simp add: initialGame_def restore_def savedPet_def)
qed

text \<open>
  C3, as amended. For an in-range pet, a decay by a non-negative number of seconds
  raises no attribute. A negative number of seconds is not read as 0: each attribute
  rises by its rate times the length of the span, capped at 100. On resume the elapsed
  seconds are \<open>floor ((now - lastUpdated) / 1000)\<close> with no lower clamp: a stored
  timestamp later than \<open>now\<close> gives a negative number, which is passed to the decay.
\<close>

theorem decay_negative_elapsed:
  "(in_range p \<and> 0 \<le> s \<longrightarrow>
      hunger (applyDecay p s) \<le> hunger p \<and> happiness (applyDecay p s) \<le> happiness p \<and>
      energy (applyDecay p s) \<le> energy p \<and> cleanliness (applyDecay p s) \<le> cleanliness p) \<and>
   (in_range p \<and> s < 0 \<longrightarrow>
      hunger (applyDecay p s) = min 100 (hunger p + 0.25 * (- s)) \<and>
      happiness (applyDecay p s) = min 100 (happiness p + 0.30 * (- s)) \<and>
      energy (applyDecay p s) = min 100 (energy p + 0.18 * (- s)) \<and>
      cleanliness (applyDecay p s) = min 100 (cleanliness p + 0.22 * (- s))) \<and>
   (raw \<noteq> [] \<and> parse raw = Some saved \<and> field ''version'' saved = Some (JNum 2) \<and>
    field ''stage'' saved = Some (JStr ''alive'') \<and> field ''pet'' saved = Some q \<and>
    field ''hunger'' q = Some (JNum h) \<and> field ''happiness'' q = Some (JNum ha) \<and>
    field ''energy'' q = Some (JNum e) \<and> field ''cleanliness'' q = Some (JNum c) \<and>
    field ''lastUpdated'' q = Some (JNum T0) \<and> T0 \<noteq> 0 \<and> now < T0 \<longrightarrow>
      real_of_int \<lfloor>(now - T0) / 1000\<rfloor> < 0 \<and>
      initialGame parse now (ReadString raw) =
        Loaded \<lparr>stage = Alive, age = ageOrZero (field ''age'' saved),
          pet = (applyDecay \<lparr>hunger = h, happiness = ha, energy = e, cleanliness = c,
                             lastUpdated = T0\<rparr> (of_int \<lfloor>(now - T0) / 1000\<rfloor>))
                  \<lparr>lastUpdated := now\<rparr>\<rparr>)"
proof (intro conjI impI)
  assume h: "in_range p \<and> 0 \<le> s"
  then show "hunger (applyDecay p s) \<le> hunger p"
    using clamp_decay_le [of "hunger p" "0.25" s]
    by (simp add: in_range_def applyDecay_def hungerDecay_def)
  from h show "happiness (applyDecay p s) \<le> happiness p"
    using clamp_decay_le [of "happiness p" "0.30" s]
    by (simp add: in_range_def applyDecay_def happinessDecay_def)
  from h show "energy (applyDecay p s) \<le> energy p"
    using clamp_decay_le [of "energy p" "0.18" s]
    by (simp add: in_range_def applyDecay_def energyDecay_def)
  from h show "cleanliness (applyDecay p s) \<le> cleanliness p"
    using clamp_decay_le [of "cleanliness p" "0.22" s]
    by (simp add: in_range_def applyDecay_def cleanlinessDecay_def)
next
  assume h: "in_range p \<and> s < 0"
  then show "hunger (applyDecay p s) = min 100 (hunger p + 0.25 * (- s))"
    using clamp_decay_negative [of "hunger p" "0.25" s]
    by (simp add: in_range_def applyDecay_def hungerDecay_def)
  from h show "happiness (applyDecay p s) = min 100 (happiness p + 0.30 * (- s))"
    using clamp_decay_negative [of "happiness p" "0.30" s]
    by (simp add: in_range_def applyDecay_def happinessDecay_def)
  from h show "energy (applyDecay p s) = min 100 (energy p + 0.18 * (- s))"
    using clamp_decay_negative [of "energy p" "0.18" s]
    by (simp add: in_range_def applyDecay_def energyDecay_def)
  from h show "cleanliness (applyDecay p s) = min 100 (cleanliness p + 0.22 * (- s))"
    using clamp_decay_negative [of "cleanliness p" "0.22" s]
    by (simp add: in_range_def applyDecay_def cleanlinessDecay_def)
next
  assume h: "raw \<noteq> [] \<and> parse raw = Some saved \<and> field ''version'' saved = Some (JNum 2) \<and>
    field ''stage'' saved = Some (JStr ''alive'') \<and> field ''pet'' saved = Some q \<and>
    field ''hunger'' q = Some (JNum h) \<and> field ''happiness'' q = Some (JNum ha) \<and>
    field ''energy'' q = Some (JNum e) \<and> field ''cleanliness'' q = Some (JNum c) \<and>
    field ''lastUpdated'' q = Some (JNum T0) \<and> T0 \<noteq> 0 \<and> now < T0"
  then have "(now - T0) / 1000 < 0"
    by simp
  then have "\<lfloor>(now - T0) / 1000\<rfloor> < 0"
    by (simp add: floor_less_iff)
  then show "real_of_int \<lfloor>(now - T0) / 1000\<rfloor> < 0"
    by simp
  show "initialGame parse now (ReadString raw) =
        Loaded \<lparr>stage = Alive, age = ageOrZero (field ''age'' saved),
          pet = (applyDecay \<lparr>hunger = h, happiness = ha, energy = e, cleanliness = c,
                             lastUpdated = T0\<rparr> (of_int \<lfloor>(now - T0) / 1000\<rfloor>))
                  \<lparr>lastUpdated := now\<rparr>\<rparr>"
    using h initialGame_typed [of raw parse saved q h ha e c Alive now T0]
    by simp
qed

theorem decay_negative_elapsed_witness:
  "in_range (freshPet 0) \<and> (0::real) \<le> 5 \<and>
   hunger (applyDecay (freshPet 0) 5) \<le> hunger (freshPet 0) \<and>
   (- 8 :: real) < 0 \<and>
   hunger (applyDecay (freshPet 0) (- 8)) = min 100 (hunger (freshPet 0) + 0.25 * (- (- 8))) \<and>
   real_of_int \<lfloor>(1000 - 9000) / 1000\<rfloor> < 0 \<and>
   initialGame
     [''saved'' \<mapsto> payload \<lparr>stage = Alive, age = 3,
        pet = \<lparr>hunger = 70, happiness = 60, energy = 80, cleanliness = 90,
               lastUpdated = 9000\<rparr>\<rparr>]
     1000 (ReadString ''saved'') =
   Loaded \<lparr>stage = Alive, age = 3,
     pet = (applyDecay \<lparr>hunger = 70, happiness = 60, energy = 80, cleanliness = 90,
                        lastUpdated = 9000\<rparr> (of_int \<lfloor>(1000 - 9000) / 1000\<rfloor>))
             \<lparr>lastUpdated := 1000\<rparr>\<rparr>"
proof -
  have r: "in_range (freshPet 0)"
    by (simp add: in_range_def freshPet_def)
  show ?thesis
    using r decay_negative_elapsed [of "freshPet 0" 5]
      decay_negative_elapsed [of "freshPet 0" "- 8"]
      decay_negative_elapsed
        [of _ _ "''saved''"
          "[''saved'' \<mapsto> payload \<lparr>stage = Alive, age = 3,
             pet = \<lparr>hunger = 70, happiness = 60, energy = 80, cleanliness = 90,
                    lastUpdated = 9000\<rparr>\<rparr>]"
          "payload \<lparr>stage = Alive, age = 3,
             pet = \<lparr>hunger = 70, happiness = 60, energy = 80, cleanliness = 90,
                    lastUpdated = 9000\<rparr>\<rparr>"
          "JObj [(''hunger'', JNum 70), (''happiness'', JNum 60), (''energy'', JNum 80),
                 (''cleanliness'', JNum 90), (''lastUpdated'', JNum 9000)]"
          70 60 80 90 9000 1000]
    by (simp add: payload_def)
qed

text \<open>
  The claim as stated fails: a decay by -8 seconds raises the hunger of a fresh pet
  from 70 to 72, and a snapshot stamped eight seconds after the load time is restored
  with all four attributes raised.
\<close>

theorem decay_negative_elapsed_counterexample:
  "hunger (freshPet 0) = 70 \<and> hunger (applyDecay (freshPet 0) (- 8)) = 72 \<and>
   initialGame
     [''saved'' \<mapsto> payload \<lparr>stage = Alive, age = 3,
        pet = \<lparr>hunger = 70, happiness = 60, energy = 80, cleanliness = 90,
               lastUpdated = 9000\<rparr>\<rparr>]
     1000 (ReadString ''saved'') =
   Loaded \<lparr>stage = Alive, age = 3,
     pet = \<lparr>hunger = 72, happiness = 62.4, energy = 81.44, cleanliness = 91.76,
            lastUpdated = 1000\<rparr>\<rparr>"
  by (simp add: initialGame_def restore_def savedPet_def payload_def applyDecay_def clamp_def
      freshPet_def hungerDecay_def happinessDecay_def energyDecay_def cleanlinessDecay_def)


section \<open>Restoring a saved game\<close>

text \<open>
  C1, as amended. For a stored version-2 snapshot in the alive stage, with attributes
  \<open>A0\<close> and a timestamp \<open>T0\<close> other than 0, loading at \<open>T1\<close> restores the attributes
  \<open>applyDecay A0 (floor ((T1 - T0) / 1000))\<close>, applied once, stamps \<open>lastUpdated\<close>
  with \<open>T1\<close>, and keeps the stage and the saved age.
\<close>

theorem catch_up_decay_on_resume:
  assumes "raw \<noteq> []" and "parse raw = Some saved"
    and "field ''version'' saved = Some (JNum 2)"
    and "field ''stage'' saved = Some (JStr ''alive'')"
    and "field ''age'' saved = Some (JNum a)"
    and "field ''pet'' saved = Some p"
    and "field ''hunger'' p = Some (JNum h)"
    and "field ''happiness'' p = Some (JNum ha)"
    and "field ''energy'' p = Some (JNum e)"
    and "field ''cleanliness'' p = Some (JNum c)"
    and "field ''lastUpdated'' p = Some (JNum T0)"
    and "T0 \<noteq> 0"
  shows "initialGame parse T1 (ReadString raw) =
     Loaded \<lparr>stage = Alive, age = a,
       pet = (applyDecay \<lparr>hunger = h, happiness = ha, energy = e, cleanliness = c,
                          lastUpdated = T0\<rparr> (of_int \<lfloor>(T1 - T0) / 1000\<rfloor>))
               \<lparr>lastUpdated := T1\<rparr>\<rparr>"
  using assms initialGame_typed [of raw parse saved p h ha e c Alive T1 T0]
  by simp

theorem catch_up_decay_on_resume_witness:
  "initialGame
     [''saved'' \<mapsto> payload \<lparr>stage = Alive, age = 3,
        pet = \<lparr>hunger = 70, happiness = 60, energy = 80, cleanliness = 90,
               lastUpdated = 1000\<rparr>\<rparr>]
     3601000 (ReadString ''saved'') =
   Loaded \<lparr>stage = Alive, age = 3,
     pet = (applyDecay \<lparr>hunger = 70, happiness = 60, energy = 80, cleanliness = 90,
                        lastUpdated = 1000\<rparr> 3600)\<lparr>lastUpdated := 3601000\<rparr>\<rparr>"
  using catch_up_decay_on_resume
    [of "''saved''"
        "[''saved'' \<mapsto> payload \<lparr>stage = Alive, age = 3,
           pet = \<lparr>hunger = 70, happiness = 60, energy = 80, cleanliness = 90,
                  lastUpdated = 1000\<rparr>\<rparr>]"
        "payload \<lparr>stage = Alive, age = 3,
           pet = \<lparr>hunger = 70, happiness = 60, energy = 80, cleanliness = 90,
                  lastUpdated = 1000\<rparr>\<rparr>"
        3
        "JObj [(''hunger'', JNum 70), (''happiness'', JNum 60), (''energy'', JNum 80),
               (''cleanliness'', JNum 90), (''lastUpdated'', JNum 1000)]"
        70 60 80 90 1000 3601000]
  by (simp add: payload_def)

text \<open>
  The claim as stated fails at \<open>T0 = 0\<close>: the timestamp 0 is replaced by the load time,
  so a snapshot stamped 0 and loaded an hour later comes back undecayed, where a decay
  by 3600 seconds takes all four attributes to 0.
\<close>

theorem catch_up_epoch_zero_counterexample:
  "initialGame
     [''saved'' \<mapsto> payload \<lparr>stage = Alive, age = 3,
        pet = \<lparr>hunger = 70, happiness = 60, energy = 80, cleanliness = 90,
               lastUpdated = 0\<rparr>\<rparr>]
     3600000 (ReadString ''saved'') =
   Loaded \<lparr>stage = Alive, age = 3,
     pet = \<lparr>hunger = 70, happiness = 60, energy = 80, cleanliness = 90,
            lastUpdated = 3600000\<rparr>\<rparr> \<and>
   (applyDecay \<lparr>hunger = 70, happiness = 60, energy = 80, cleanliness = 90,
               lastUpdated = 0\<rparr> (of_int \<lfloor>(3600000 - 0) / 1000\<rfloor>))\<lparr>lastUpdated := 3600000\<rparr> =
     \<lparr>hunger = 0, happiness = 0, energy = 0, cleanliness = 0, lastUpdated = 3600000\<rparr>"
  by (simp add: initialGame_def restore_def savedPet_def payload_def applyDecay_def clamp_def
      hungerDecay_def happinessDecay_def energyDecay_def cleanlinessDecay_def)

text \<open>
  C5. When the stored value is missing (or reading it throws), is the empty string,
  does not parse, or parses to a value whose \<open>version\<close> is not the number 2,
  \<open>initialGame\<close> returns the fresh egg: stage egg, age 0, attributes 70, 60, 80, 90,
  stamped with the load time. The result is a value in each of these cases.
\<close>

theorem bad_data_fresh_egg:
  assumes "r = ReadThrows \<or> r = ReadNull \<or>
     (\<exists>raw. r = ReadString raw \<and>
        (raw = [] \<or> parse raw = None \<or>
         (\<exists>saved. parse raw = Some saved \<and> field ''version'' saved \<noteq> Some (JNum 2))))"
  shows "initialGame parse now r =
     Loaded \<lparr>stage = Egg, age = 0,
       pet = \<lparr>hunger = 70, happiness = 60, energy = 80, cleanliness = 90,
              lastUpdated = now\<rparr>\<rparr>"
  using assms by (auto simp: initialGame_def freshGame_def freshPet_def)

theorem bad_data_fresh_egg_witness:
  "initialGame Map.empty 5 ReadNull =
     Loaded \<lparr>stage = Egg, age = 0,
       pet = \<lparr>hunger = 70, happiness = 60, energy = 80, cleanliness = 90, lastUpdated = 5\<rparr>\<rparr> \<and>
   initialGame Map.empty 5 (ReadString ''{oops'') =
     Loaded \<lparr>stage = Egg, age = 0,
       pet = \<lparr>hunger = 70, happiness = 60, energy = 80, cleanliness = 90, lastUpdated = 5\<rparr>\<rparr> \<and>
   initialGame
     [''v1'' \<mapsto> JObj [(''version'', JNum 1), (''stage'', JStr ''alive''), (''age'', JNum 7),
                       (''pet'', JObj [(''hunger'', JNum 1), (''lastUpdated'', JNum 1)])]]
     5 (ReadString ''v1'') =
     Loaded \<lparr>stage = Egg, age = 0,
       pet = \<lparr>hunger = 70, happiness = 60, energy = 80, cleanliness = 90, lastUpdated = 5\<rparr>\<rparr>"
  using bad_data_fresh_egg [of ReadNull Map.empty 5]
    bad_data_fresh_egg [of "ReadString ''{oops''" Map.empty 5]
    bad_data_fresh_egg
      [of "ReadString ''v1''"
          "[''v1'' \<mapsto> JObj [(''version'', JNum 1), (''stage'', JStr ''alive''), (''age'', JNum 7),
                       (''pet'', JObj [(''hunger'', JNum 1), (''lastUpdated'', JNum 1)])]]" 5]
  by simp

text \<open>
  C10, as amended. For a stored version-2 object whose pet has four numeric attributes
  and a \<open>lastUpdated\<close> that is 0 or missing, the elapsed time is zero. In the alive stage
  the restored attributes are the saved ones clamped to \<open>[0, 100]\<close>, in every other
  stage the saved ones as they are; so they equal the saved attributes whenever these
  lie in \<open>[0, 100]\<close>. \<open>lastUpdated\<close> is the load time.
\<close>

theorem missing_timestamp_no_catch_up:
  assumes "raw \<noteq> []" and "parse raw = Some saved"
    and "field ''version'' saved = Some (JNum 2)"
    and "field ''pet'' saved = Some p"
    and "field ''hunger'' p = Some (JNum h)"
    and "field ''happiness'' p = Some (JNum ha)"
    and "field ''energy'' p = Some (JNum e)"
    and "field ''cleanliness'' p = Some (JNum c)"
    and "stageOrEgg (field ''stage'' saved) = Some st"
    and "field ''lastUpdated'' p = None \<or> field ''lastUpdated'' p = Some (JNum 0)"
  shows "initialGame parse now (ReadString raw) =
     Loaded \<lparr>stage = st, age = ageOrZero (field ''age'' saved),
       pet = (if st = Alive
              then \<lparr>hunger = clamp h, happiness = clamp ha, energy = clamp e,
                     cleanliness = clamp c, lastUpdated = now\<rparr>
              else \<lparr>hunger = h, happiness = ha, energy = e, cleanliness = c,
                     lastUpdated = now\<rparr>)\<rparr> \<and>
     (in_range \<lparr>hunger = h, happiness = ha, energy = e, cleanliness = c, lastUpdated = now\<rparr> \<longrightarrow>
        initialGame parse now (ReadString raw) =
          Loaded \<lparr>stage = st, age = ageOrZero (field ''age'' saved),
            pet = \<lparr>hunger = h, happiness = ha, energy = e, cleanliness = c,
                   lastUpdated = now\<rparr>\<rparr>)"
proof -
  have t: "lastUpdatedOr now (field ''lastUpdated'' p) = Some now"
    using assms(10) by auto
  have first: "initialGame parse now (ReadString raw) =
     Loaded \<lparr>stage = st, age = ageOrZero (field ''age'' saved),
       pet = (if st = Alive
              then \<lparr>hunger = clamp h, happiness = clamp ha, energy = clamp e,
                     cleanliness = clamp c, lastUpdated = now\<rparr>
              else \<lparr>hunger = h, happiness = ha, energy = e, cleanliness = c,
                     lastUpdated = now\<rparr>)\<rparr>"
    using assms(1-9) t initialGame_typed [of raw parse saved p h ha e c st now now]
    by (simp add: applyDecay_def)
  show ?thesis
  proof (intro conjI impI)
    show "initialGame parse now (ReadString raw) =
     Loaded \<lparr>stage = st, age = ageOrZero (field ''age'' saved),
       pet = (if st = Alive
              then \<lparr>hunger = clamp h, happiness = clamp ha, energy = clamp e,
                     cleanliness = clamp c, lastUpdated = now\<rparr>
              else \<lparr>hunger = h, happiness = ha, energy = e, cleanliness = c,
                     lastUpdated = now\<rparr>)\<rparr>"
      by (rule first)
  next
    assume "in_range \<lparr>hunger = h, happiness = ha, energy = e, cleanliness = c, lastUpdated = now\<rparr>"
    then show "initialGame parse now (ReadString raw) =
          Loaded \<lparr>stage = st, age = ageOrZero (field ''age'' saved),
            pet = \<lparr>hunger = h, happiness = ha, energy = e, cleanliness = c,
                   lastUpdated = now\<rparr>\<rparr>"
      using first by (simp add: in_range_def clamp_id)
  qed
qed

theorem missing_timestamp_no_catch_up_witness:
  "initialGame
     [''saved'' \<mapsto> JObj [(''version'', JNum 2), (''stage'', JStr ''alive''), (''age'', JNum 3),
        (''pet'', JObj [(''hunger'', JNum 70), (''happiness'', JNum 60), (''energy'', JNum 80),
                       (''cleanliness'', JNum 90)])]]
     3600000 (ReadString ''saved'') =
   Loaded \<lparr>stage = Alive, age = 3,
     pet = \<lparr>hunger = 70, happiness = 60, energy = 80, cleanliness = 90,
            lastUpdated = 3600000\<rparr>\<rparr>"
proof -
  have r: "in_range \<lparr>hunger = 70, happiness = 60, energy = 80, cleanliness = 90,
                     lastUpdated = 3600000\<rparr>"
    by (simp add: in_range_def)
  show ?thesis
    using r missing_timestamp_no_catch_up
      [of "''saved''"
        "[''saved'' \<mapsto> JObj [(''version'', JNum 2), (''stage'', JStr ''alive''), (''age'', JNum 3),
          (''pet'', JObj [(''hunger'', JNum 70), (''happiness'', JNum 60), (''energy'', JNum 80),
                         (''cleanliness'', JNum 90)])]]"
        "JObj [(''version'', JNum 2), (''stage'', JStr ''alive''), (''age'', JNum 3),
          (''pet'', JObj [(''hunger'', JNum 70), (''happiness'', JNum 60), (''energy'', JNum 80),
                         (''cleanliness'', JNum 90)])]"
        "JObj [(''hunger'', JNum 70), (''happiness'', JNum 60), (''energy'', JNum 80),
               (''cleanliness'', JNum 90)]"
        70 60 80 90 Alive 3600000]
    by (simp add: clamp_def)
qed

text \<open>
  The claim as stated fails for an alive snapshot with an attribute above 100: the
  decay by zero seconds still clamps, and a saved hunger of 150 is restored as 100.
\<close>

theorem missing_timestamp_counterexample:
  "initialGame
     [''saved'' \<mapsto> JObj [(''version'', JNum 2), (''stage'', JStr ''alive''), (''age'', JNum 3),
        (''pet'', JObj [(''hunger'', JNum 150), (''happiness'', JNum 60), (''energy'', JNum 80),
                       (''cleanliness'', JNum 90)])]]
     3600000 (ReadString ''saved'') =
   Loaded \<lparr>stage = Alive, age = 3,
     pet = \<lparr>hunger = 100, happiness = 60, energy = 80, cleanliness = 90,
            lastUpdated = 3600000\<rparr>\<rparr>"
  by (simp add: initialGame_def restore_def savedPet_def applyDecay_def clamp_def)


section \<open>The clamp invariant\<close>





end
